theory Spec2Isabelle
  imports Main
begin

section \<open>Exceptions\<close>

text \<open>
  The views of \<^verbatim>\<open>django_airavata/apps/auth/views.py\<close> catch exceptions by class.
  An exception value carries its class, the text \<^verbatim>\<open>str(e)\<close> and the attribute
  \<^verbatim>\<open>e.message\<close> when the object has one (a Python 3 exception has none unless
  its class defines it, as Django's ValidationError does).
\<close>

datatype exc_class =
  ObjectDoesNotExist | MultipleObjectsReturned | IntegrityError | IndexError
  | KeyError | AttributeError | Exception

datatype exn = Exn (exc_class: exc_class) (exc_str: string) (exc_message: "string option")

section \<open>Data model\<close>

text \<open>
  Modelled from the spec: \<^verbatim>\<open>models.EmailVerification\<close> and \<^verbatim>\<open>models.EmailTemplate\<close>
  (models.py is not among the sources). A verification record has the owner's username,
  a unique code generated at creation and a verified flag, initially false; a template
  has a subject and a body and is identified by a fixed key.
\<close>

record email_verification =
  username :: string
  verification_code :: string
  verified :: bool

record email_template =
  subject :: string
  body :: string

datatype template_id = VERIFY_EMAIL_TEMPLATE | NEW_USER_EMAIL_TEMPLATE

text \<open>The profile that \<^verbatim>\<open>iam_admin_client.get_user\<close> returns.\<close>

record user_profile =
  emails :: "string list"
  firstName :: string
  lastName :: string

text \<open>\<^verbatim>\<open>django.core.mail.EmailMessage\<close>, with the fields the views set.\<close>

record email_message =
  msg_subject :: string
  msg_body :: string
  from_email :: string
  to :: "string list"
  content_subtype :: string

text \<open>\<^verbatim>\<open>settings.AUTHENTICATION_OPTIONS\<close>: both keys are optional in the dictionary.\<close>

record external_option =
  idp_alias :: string
  name :: string

record authentication_options =
  password :: "string option"
  external :: "external_option list option"

record settings =
  AUTHENTICATION_OPTIONS :: authentication_options
  KEYCLOAK_CLIENT_ID :: string
  KEYCLOAK_AUTHORIZE_URL :: string
  LOGIN_REDIRECT_URL :: string
  PORTAL_TITLE :: string
  SERVER_EMAIL :: string
  GATEWAY_ID :: string
  ADMINS :: "(string \<times> string) list"

text \<open>
  A request: its method, the query and form dictionaries, and what
  \<^verbatim>\<open>request.get_host()\<close> gives (it raises on a disallowed host).
\<close>

record request =
  http_method :: string
  GET :: "string \<rightharpoonup> string"
  POST :: "string \<rightharpoonup> string"
  get_host :: "exn + string"

text \<open>The named URLs of the application that the views reverse.\<close>

datatype route =
  Url_login | Url_callback | Url_callback_error "string option" | Url_create_account
  | Url_verify_email string | Url_resend_email_link

text \<open>
  What a view returns: a redirect to a reversed route or to a URL, or a rendered
  template with its context.
\<close>

datatype response =
  Redirect route
  | Redirect_url string
  | Render_callback_error string "external_option list"
  | Render_create_account authentication_options "string list"
  | Render_verify_email "string list"

datatype message_level = Success | Error
datatype log_level = Debug | Log_exception

text \<open>The calls made to the IAM admin client, recorded in the order they are made.\<close>

datatype iam_call =
  Call_register_user string string string string string
  | Call_is_user_exist string
  | Call_is_user_enabled string
  | Call_enable_user string
  | Call_get_user string

text \<open>The cleaned data of a valid \<^verbatim>\<open>CreateAccountForm\<close>.\<close>

record create_account_data =
  cd_username :: string
  cd_email :: string
  cd_first_name :: string
  cd_last_name :: string
  cd_password :: string

section \<open>The state and the collaborators\<close>

text \<open>
  The state one request works on: the state \<open>ext\<close> of the external services (the IAM
  service, the mail server, the random source), the two database tables, the session,
  the messages shown to the user, the log, the IAM calls made and the emails sent.
  A row's primary key is its position in the table.
\<close>

record 'x world =
  ext :: 'x
  email_verifications :: "email_verification list"
  email_templates :: "template_id \<rightharpoonup> email_template"
  session :: "string \<rightharpoonup> string"
  messages :: "(message_level \<times> string) list"
  logged :: "(log_level \<times> string) list"
  iam_calls :: "iam_call list"
  outbox :: "email_message list"

type_synonym ('x, 'a) call = "'x \<Rightarrow> (exn + 'a) \<times> 'x"
type_synonym ('x, 'a) action = "'x world \<Rightarrow> (exn + 'a) \<times> 'x world"

text \<open>
  The module \<^verbatim>\<open>iam_admin_client\<close> is not among the sources: its functions are
  parameters. Each may change the external state and may raise.
\<close>

record 'x iam_admin_client =
  register_user :: "string \<Rightarrow> string \<Rightarrow> string \<Rightarrow> string \<Rightarrow> string \<Rightarrow> ('x, bool) call"
  is_user_exist :: "string \<Rightarrow> ('x, bool) call"
  is_user_enabled :: "string \<Rightarrow> ('x, bool) call"
  enable_user :: "string \<Rightarrow> ('x, unit) call"
  get_user :: "string \<Rightarrow> ('x, user_profile) call"

text \<open>
  The framework and library functions the views call, as parameters: form validation
  (the errors of an invalid form, or its cleaned data), template rendering, the mail
  backend, the code generator of a new verification record, URL building and quoting,
  authentication, login and the OAuth2 client.
\<close>

record 'x framework =
  create_account_form :: "(string \<rightharpoonup> string) \<Rightarrow> string list + create_account_data"
  resend_form :: "(string \<rightharpoonup> string) \<Rightarrow> string list + string"
  render_template :: "string \<Rightarrow> (string \<times> string) list \<Rightarrow> exn + string"
  send :: "email_message \<Rightarrow> ('x, unit) call"
  uuid4 :: "'x \<Rightarrow> string \<times> 'x"
  build_absolute_uri :: "request \<Rightarrow> route option \<Rightarrow> string"
  quote :: "string \<Rightarrow> string"
  split_domain_port :: "string \<Rightarrow> string \<times> string"
  resolve_url :: "string \<Rightarrow> exn + string"
  authenticate :: "request \<Rightarrow> (string \<rightharpoonup> string) \<Rightarrow> ('x, string option) call"
  login :: "request \<Rightarrow> string option \<Rightarrow> (string \<rightharpoonup> string) \<Rightarrow> exn + (string \<rightharpoonup> string)"
  authorization_url :: "string \<Rightarrow> string \<Rightarrow> string \<Rightarrow> 'x \<Rightarrow> (string \<times> string) \<times> 'x"

section \<open>Sequencing with exceptions\<close>

text \<open>
  A statement either returns a value or raises; a raise skips the rest of the block
  and keeps the state reached so far.
\<close>

definition seq :: "('x, 'a) action \<Rightarrow> ('a \<Rightarrow> ('x, 'b) action) \<Rightarrow> ('x, 'b) action" where
  "seq m f w = (case m w of (Inl e, w') \<Rightarrow> (Inl e, w') | (Inr a, w') \<Rightarrow> f a w')"

definition return :: "'a \<Rightarrow> ('x, 'a) action" where
  "return a w = (Inr a, w)"

definition raise :: "exn \<Rightarrow> ('x, 'a) action" where
  "raise e w = (Inl e, w)"

definition lift :: "exn + 'a \<Rightarrow> ('x, 'a) action" where
  "lift r w = (r, w)"

text \<open>A call of the IAM client: recorded, then run on the external state.\<close>

definition iam :: "iam_call \<Rightarrow> ('x, 'a) call \<Rightarrow> ('x, 'a) action" where
  "iam c f w =
     (let (r, x') = f (ext w)
      in (r, w\<lparr>ext := x', iam_calls := iam_calls w @ [c]\<rparr>))"

text \<open>
  \<^verbatim>\<open>EmailMessage.recipients()\<close> and \<^verbatim>\<open>msg.send()\<close>. The recipients are the non-empty
  addresses of the message; with no recipient, \<^verbatim>\<open>send\<close> returns at once and the
  mail backend is not called. Otherwise the backend is called, and the message is in
  the outbox when the call returns.
\<close>

definition recipients :: "email_message \<Rightarrow> string list" where
  "recipients msg = filter (\<lambda>email. email \<noteq> []) (to msg)"

definition msg_send :: "'x framework \<Rightarrow> email_message \<Rightarrow> ('x, unit) action" where
  "msg_send fw msg w =
     (if recipients msg = [] then (Inr (), w)
      else
        (case send fw msg (ext w) of
           (Inl e, x') \<Rightarrow> (Inl e, w\<lparr>ext := x'\<rparr>)
         | (Inr u, x') \<Rightarrow> (Inr u, w\<lparr>ext := x', outbox := outbox w @ [msg]\<rparr>)))"

definition messages_add :: "message_level \<Rightarrow> string \<Rightarrow> ('x, unit) action" where
  "messages_add lvl txt w = (Inr (), w\<lparr>messages := messages w @ [(lvl, txt)]\<rparr>)"

definition logger :: "log_level \<Rightarrow> string \<Rightarrow> ('x, unit) action" where
  "logger lvl txt w = (Inr (), w\<lparr>logged := logged w @ [(lvl, txt)]\<rparr>)"

section \<open>The database tables\<close>

text \<open>
  \<^verbatim>\<open>EmailVerification.objects.get(verification_code=code)\<close>: the one matching row,
  with its primary key; DoesNotExist (a subclass of ObjectDoesNotExist) when there is
  none, MultipleObjectsReturned when there are several.
\<close>

definition rows_with_code :: "string \<Rightarrow> email_verification list \<Rightarrow> (nat \<times> email_verification) list" where
  "rows_with_code code tbl = filter (\<lambda>(i, r). verification_code r = code) (enumerate 0 tbl)"

definition EmailVerification_get :: "string \<Rightarrow> ('x, nat \<times> email_verification) action" where
  "EmailVerification_get code w =
     (case rows_with_code code (email_verifications w) of
        [] \<Rightarrow> (Inl (Exn ObjectDoesNotExist
                 ''EmailVerification matching query does not exist.'' None), w)
      | [row] \<Rightarrow> (Inr row, w)
      | _ \<Rightarrow> (Inl (Exn MultipleObjectsReturned
                 ''get() returned more than one EmailVerification'' None), w))"

text \<open>\<^verbatim>\<open>save()\<close> of a row read from the table: the row is overwritten.\<close>

definition EmailVerification_save :: "nat \<Rightarrow> email_verification \<Rightarrow> ('x, unit) action" where
  "EmailVerification_save pk r w =
     (Inr (), w\<lparr>email_verifications := (email_verifications w)[pk := r]\<rparr>)"

text \<open>
  Modelled from the spec: \<^verbatim>\<open>EmailVerification(username=username)\<close> followed by
  \<^verbatim>\<open>save()\<close> (models.py is not among the sources). The new record takes a generated
  code and verified = false; codes are unique across the table, so inserting a code
  the table already holds raises IntegrityError and inserts nothing.
\<close>

definition EmailVerification_create :: "'x framework \<Rightarrow> string \<Rightarrow> ('x, email_verification) action" where
  "EmailVerification_create fw uname w =
     (let (code, x') = uuid4 fw (ext w);
          r = \<lparr>username = uname, verification_code = code, verified = False\<rparr>;
          w' = w\<lparr>ext := x'\<rparr>
      in if code \<in> set (map verification_code (email_verifications w))
         then (Inl (Exn IntegrityError ''UNIQUE constraint failed'' None), w')
         else (Inr r, w'\<lparr>email_verifications := email_verifications w @ [r]\<rparr>))"

text \<open>\<^verbatim>\<open>EmailTemplate.objects.get(pk=...)\<close>: DoesNotExist when the row is missing.\<close>

definition EmailTemplate_get :: "template_id \<Rightarrow> ('x, email_template) action" where
  "EmailTemplate_get pk w =
     (case email_templates w pk of
        None \<Rightarrow> (Inl (Exn ObjectDoesNotExist
                   ''EmailTemplate matching query does not exist.'' None), w)
      | Some t \<Rightarrow> (Inr t, w))"

text \<open>\<^verbatim>\<open>user_profile.emails[0]\<close>: IndexError on an empty list.\<close>

definition first_email :: "user_profile \<Rightarrow> exn + string" where
  "first_email p =
     (case emails p of
        [] \<Rightarrow> Inl (Exn IndexError ''list index out of range'' None)
      | a # _ \<Rightarrow> Inr a)"

section \<open>The views\<close>

subsection \<open>Login through an external identity provider\<close>

text \<open>
  \<^verbatim>\<open>_validate_idp_alias\<close>: KeyError when the options have no \<^verbatim>\<open>'external'\<close>
  key, an Exception when the alias is not among the configured ones.
\<close>

definition validate_idp_alias :: "settings \<Rightarrow> string \<Rightarrow> exn + unit" where
  "validate_idp_alias st alias =
     (case external (AUTHENTICATION_OPTIONS st) of
        None \<Rightarrow> Inl (Exn KeyError ''external'' None)
      | Some external_auth_options \<Rightarrow>
          (let valid_idp_aliases = map idp_alias external_auth_options
           in if alias \<notin> set valid_idp_aliases
              then Inl (Exn Exception ''idp_alias is not valid'' None)
              else Inr ()))"

definition session_set :: "string \<Rightarrow> string \<Rightarrow> ('x, unit) action" where
  "session_set k v w = (Inr (), w\<lparr>session := (session w)(k \<mapsto> v)\<rparr>)"

definition oauth2_authorization_url ::
  "'x framework \<Rightarrow> string \<Rightarrow> string \<Rightarrow> string \<Rightarrow> ('x, string \<times> string) action" where
  "oauth2_authorization_url fw client_id redirect_uri base_authorize_url w =
     (let (r, x') = authorization_url fw client_id redirect_uri base_authorize_url (ext w)
      in (Inr r, w\<lparr>ext := x'\<rparr>))"

definition redirect_login ::
  "'x framework \<Rightarrow> settings \<Rightarrow> request \<Rightarrow> string \<Rightarrow> ('x, response) action" where
  "redirect_login fw st req alias =
     seq (lift (validate_idp_alias st alias)) (\<lambda>_.
     let client_id = KEYCLOAK_CLIENT_ID st;
         base_authorize_url = KEYCLOAK_AUTHORIZE_URL st;
         redirect_uri0 = build_absolute_uri fw req (Some Url_callback)
                           @ ''?idp_alias='' @ quote fw alias;
         redirect_uri = (case GET req ''next'' of
                           Some n \<Rightarrow> redirect_uri0 @ ''&next='' @ quote fw n
                         | None \<Rightarrow> redirect_uri0)
     in
     seq (oauth2_authorization_url fw client_id redirect_uri base_authorize_url)
       (\<lambda>(authorization_url0, state).
     let authorization_url = authorization_url0 @ ''&kc_idp_hint='' @ quote fw alias
     in
     seq (session_set ''OAUTH2_STATE'' state) (\<lambda>_.
     seq (session_set ''OAUTH2_REDIRECT_URI'' redirect_uri) (\<lambda>_.
     seq (lift (resolve_url fw authorization_url)) (\<lambda>url.
     return (Redirect_url url))))))"

text \<open>The body of the \<^verbatim>\<open>try\<close> block of \<^verbatim>\<open>callback\<close>.\<close>

definition do_authenticate :: "'x framework \<Rightarrow> request \<Rightarrow> ('x, string option) action" where
  "do_authenticate fw req w =
     (let (r, x') = authenticate fw req (session w) (ext w) in (r, w\<lparr>ext := x'\<rparr>))"

definition do_login :: "'x framework \<Rightarrow> request \<Rightarrow> string option \<Rightarrow> ('x, unit) action" where
  "do_login fw req user w =
     (case login fw req user (session w) of
        Inl e \<Rightarrow> (Inl e, w)
      | Inr s \<Rightarrow> (Inr (), w\<lparr>session := s\<rparr>))"

definition callback_try :: "'x framework \<Rightarrow> settings \<Rightarrow> request \<Rightarrow> ('x, response) action" where
  "callback_try fw st req =
     seq (do_authenticate fw req) (\<lambda>user.
     seq (do_login fw req user) (\<lambda>_.
     let next_url = (case GET req ''next'' of Some n \<Rightarrow> n | None \<Rightarrow> LOGIN_REDIRECT_URL st)
     in
     seq (lift (resolve_url fw next_url)) (\<lambda>url.
     return (Redirect_url url))))"

definition callback :: "'x framework \<Rightarrow> settings \<Rightarrow> request \<Rightarrow> ('x, response) action" where
  "callback fw st req w =
     (case callback_try fw st req w of
        (Inr resp, w') \<Rightarrow> (Inr resp, w')
      | (Inl err, w') \<Rightarrow>
          seq (logger Log_exception
                 (''An error occurred while processing OAuth2 callback: ''
                    @ build_absolute_uri fw req None)) (\<lambda>_.
          seq (messages_add Error
                 (''Failed to process OAuth2 callback: '' @ exc_str err)) (\<lambda>_.
          let idp_alias = GET req ''idp_alias''
          in return (Redirect (Url_callback_error idp_alias)))) w')"

text \<open>
  The loop of \<^verbatim>\<open>callback_error\<close>: the entries of the given alias are appended, in
  order, to the list that starts empty.
\<close>

fun filtered_options :: "string \<Rightarrow> external_option list \<Rightarrow> external_option list \<Rightarrow> external_option list" where
  "filtered_options alias [] acc = acc"
| "filtered_options alias (e # es) acc =
     (if idp_alias e = alias then filtered_options alias es (acc @ [e])
      else filtered_options alias es acc)"

definition callback_error :: "settings \<Rightarrow> string \<Rightarrow> exn + response" where
  "callback_error st alias =
     (case validate_idp_alias st alias of
        Inl e \<Rightarrow> Inl e
      | Inr _ \<Rightarrow>
          (case external (AUTHENTICATION_OPTIONS st) of
             None \<Rightarrow> Inl (Exn KeyError ''external'' None)
           | Some exts \<Rightarrow> Inr (Render_callback_error alias (filtered_options alias exts []))))"

subsection \<open>Account creation and email verification\<close>

text \<open>\<^verbatim>\<open>_create_and_send_email_verification_link\<close>.\<close>

definition create_and_send_email_verification_link ::
  "'x framework \<Rightarrow> settings \<Rightarrow> request \<Rightarrow> string \<Rightarrow> string \<Rightarrow> string \<Rightarrow> string
     \<Rightarrow> ('x, unit) action" where
  "create_and_send_email_verification_link fw st req uname email first_name last_name =
     seq (EmailVerification_create fw uname) (\<lambda>email_verification.
     let verification_uri =
           build_absolute_uri fw req
             (Some (Url_verify_email (verification_code email_verification)))
     in
     seq (logger Debug (''verification_uri='' @ verification_uri)) (\<lambda>_.
     seq (EmailTemplate_get VERIFY_EMAIL_TEMPLATE) (\<lambda>verify_email_template.
     let context = [(''username'', uname), (''email'', email),
                    (''first_name'', first_name), (''last_name'', last_name),
                    (''portal_title'', PORTAL_TITLE st), (''url'', verification_uri)]
     in
     seq (lift (render_template fw (subject verify_email_template) context)) (\<lambda>subj.
     seq (lift (render_template fw (body verify_email_template) context)) (\<lambda>bdy.
     msg_send fw
       \<lparr>msg_subject = subj, msg_body = bdy,
        from_email = PORTAL_TITLE st @ '' <'' @ SERVER_EMAIL st @ ''>'',
        to = [first_name @ '' '' @ last_name @ '' <'' @ email @ ''>''],
        content_subtype = ''html''\<rparr>)))))"

text \<open>
  How the \<^verbatim>\<open>try\<close> block of \<^verbatim>\<open>create_account\<close> ends when it does not raise: with
  a returned response, or at its end with an error added to the form.
\<close>

datatype flow = Return response | Fall_through "string list"

definition create_account_try ::
  "'x iam_admin_client \<Rightarrow> 'x framework \<Rightarrow> settings \<Rightarrow> request \<Rightarrow> create_account_data
     \<Rightarrow> ('x, flow) action" where
  "create_account_try ic fw st req cd =
     (let uname = cd_username cd; email = cd_email cd; first_name = cd_first_name cd;
          last_name = cd_last_name cd; pw = cd_password cd
      in
      seq (iam (Call_register_user uname email first_name last_name pw)
             (register_user ic uname email first_name last_name pw)) (\<lambda>success.
      if \<not> success
      then return (Fall_through [''Failed to register user with IAM service''])
      else
        seq (create_and_send_email_verification_link fw st req uname email
               first_name last_name) (\<lambda>_.
        seq (messages_add Success
               (''Account request processed successfully. Before you ''
                @ ''can login you need to confirm your email address. ''
                @ ''We've sent you an email with a link that you should ''
                @ ''click on to complete the account creation process.'')) (\<lambda>_.
        return (Return (Redirect Url_create_account))))))"

text \<open>
  \<^verbatim>\<open>create_account\<close>. The handler of the \<^verbatim>\<open>try\<close> block reads \<^verbatim>\<open>e.message\<close>:
  that raises AttributeError, out of the view, when the exception has no such
  attribute.
\<close>

definition create_account ::
  "'x iam_admin_client \<Rightarrow> 'x framework \<Rightarrow> settings \<Rightarrow> request \<Rightarrow> ('x, response) action" where
  "create_account ic fw st req w =
     (if http_method req = ''POST''
      then
        (case create_account_form fw (POST req) of
           Inl errors \<Rightarrow> (Inr (Render_create_account (AUTHENTICATION_OPTIONS st) errors), w)
         | Inr cd \<Rightarrow>
             (case create_account_try ic fw st req cd w of
                (Inr (Return resp), w') \<Rightarrow> (Inr resp, w')
              | (Inr (Fall_through errors), w') \<Rightarrow>
                  (Inr (Render_create_account (AUTHENTICATION_OPTIONS st) errors), w')
              | (Inl e, w') \<Rightarrow>
                  seq (logger Log_exception ''Failed to create account for user'') (\<lambda>_.
                  case exc_message e of
                    None \<Rightarrow>
                      raise (Exn AttributeError ''object has no attribute message'' None)
                  | Some m \<Rightarrow>
                      return (Render_create_account (AUTHENTICATION_OPTIONS st) [m])) w'))
      else (Inr (Render_create_account (AUTHENTICATION_OPTIONS st) []), w))"

text \<open>The body of the \<^verbatim>\<open>try\<close> block of \<^verbatim>\<open>verify_email\<close>.\<close>

definition verify_email_try ::
  "'x iam_admin_client \<Rightarrow> 'x framework \<Rightarrow> settings \<Rightarrow> request \<Rightarrow> string
     \<Rightarrow> ('x, response) action" where
  "verify_email_try ic fw st req code =
     seq (EmailVerification_get code) (\<lambda>(pk, email_verification).
     seq (EmailVerification_save pk (email_verification\<lparr>verified := True\<rparr>)) (\<lambda>_.
     let uname = username email_verification
     in
     seq (logger Debug (''Email address verified for '' @ uname)) (\<lambda>_.
     seq (iam (Call_is_user_enabled uname) (is_user_enabled ic uname)) (\<lambda>enabled.
     if enabled
     then
       seq (logger Debug (''User '' @ uname @ '' is already enabled'')) (\<lambda>_.
       seq (messages_add Success
              (''Your account has already been successfully created. ''
               @ ''Please log in now.'')) (\<lambda>_.
       return (Redirect Url_login)))
     else
       seq (logger Debug (''Enabling user '' @ uname)) (\<lambda>_.
       seq (iam (Call_enable_user uname) (enable_user ic uname)) (\<lambda>_.
       seq (iam (Call_get_user uname) (get_user ic uname)) (\<lambda>user_profile.
       seq (EmailTemplate_get NEW_USER_EMAIL_TEMPLATE) (\<lambda>new_user_email_template.
       seq (lift (first_email user_profile)) (\<lambda>email_address.
       let first_name = firstName user_profile;
           last_name = lastName user_profile
       in
       seq (lift (get_host req)) (\<lambda>host.
       let (domain, port) = split_domain_port fw host;
           context = [(''username'', uname), (''email'', email_address),
                      (''first_name'', first_name), (''last_name'', last_name),
                      (''portal_title'', PORTAL_TITLE st),
                      (''gateway_id'', GATEWAY_ID st), (''http_host'', domain)]
       in
       seq (lift (render_template fw (subject new_user_email_template) context)) (\<lambda>subj.
       seq (lift (render_template fw (body new_user_email_template) context)) (\<lambda>bdy.
       seq (msg_send fw
              \<lparr>msg_subject = subj, msg_body = bdy,
               from_email = PORTAL_TITLE st @ '' <'' @ SERVER_EMAIL st @ ''>'',
               to = map snd (ADMINS st),
               content_subtype = ''html''\<rparr>) (\<lambda>_.
       seq (messages_add Success
              (''Your account has been successfully created. ''
               @ ''Please log in now.'')) (\<lambda>_.
       return (Redirect Url_login)))))))))))))))"

text \<open>
  \<^verbatim>\<open>verify_email\<close>: the first handler takes every ObjectDoesNotExist raised in
  the block, the second every other exception.
\<close>

definition verify_email ::
  "'x iam_admin_client \<Rightarrow> 'x framework \<Rightarrow> settings \<Rightarrow> request \<Rightarrow> string
     \<Rightarrow> ('x, response) action" where
  "verify_email ic fw st req code w =
     (case verify_email_try ic fw st req code w of
        (Inr resp, w') \<Rightarrow> (Inr resp, w')
      | (Inl e, w') \<Rightarrow>
          if exc_class e = ObjectDoesNotExist
          then
            seq (logger Log_exception
                   (''EmailVerification object doesn't exist for code '' @ code)) (\<lambda>_.
            seq (messages_add Error
                   (''Email verification failed. Please enter your username and we ''
                    @ ''will send you another email verification link.'')) (\<lambda>_.
            return (Redirect Url_resend_email_link))) w'
          else
            seq (logger Log_exception ''Email verification processing failed!'') (\<lambda>_.
            seq (messages_add Error
                   (''Email verification failed. Please try clicking the email ''
                    @ ''verification link again later.'')) (\<lambda>_.
            return (Redirect Url_create_account))) w')"

text \<open>The body of the \<^verbatim>\<open>try\<close> block of \<^verbatim>\<open>resend_email_link\<close>.\<close>

definition resend_email_link_try ::
  "'x iam_admin_client \<Rightarrow> 'x framework \<Rightarrow> settings \<Rightarrow> request \<Rightarrow> string
     \<Rightarrow> ('x, response) action" where
  "resend_email_link_try ic fw st req uname =
     seq (iam (Call_is_user_exist uname) (is_user_exist ic uname)) (\<lambda>user_exists.
     seq (if user_exists
          then
            seq (iam (Call_get_user uname) (get_user ic uname)) (\<lambda>user_profile.
            seq (lift (first_email user_profile)) (\<lambda>email_address.
            seq (create_and_send_email_verification_link fw st req uname email_address
                   (firstName user_profile) (lastName user_profile)) (\<lambda>_.
            messages_add Success
              (''Email verification link sent successfully. Please ''
               @ ''click on the link in the email that we sent ''
               @ ''to your email address.''))))
          else
            messages_add Error
              (''Unable to resend email verification link. Please ''
               @ ''contact the website administrator for further ''
               @ ''assistance.'')) (\<lambda>_.
     return (Redirect Url_resend_email_link)))"

definition resend_email_link ::
  "'x iam_admin_client \<Rightarrow> 'x framework \<Rightarrow> settings \<Rightarrow> request \<Rightarrow> ('x, response) action" where
  "resend_email_link ic fw st req w =
     (if http_method req = ''POST''
      then
        (case resend_form fw (POST req) of
           Inl errors \<Rightarrow> (Inr (Render_verify_email errors), w)
         | Inr uname \<Rightarrow>
             (case resend_email_link_try ic fw st req uname w of
                (Inr resp, w') \<Rightarrow> (Inr resp, w')
              | (Inl e, w') \<Rightarrow>
                  seq (logger Log_exception ''Failed to resend email verification link'')
                    (\<lambda>_. return (Render_verify_email [exc_str e])) w'))
      else (Inr (Render_verify_email []), w))"

section \<open>An example deployment\<close>

text \<open>
  A concrete instance of the parameters, on which the theorems below are exercised.
  The external state holds the users of a small IAM service, each with an enabled
  flag, and the codes the generator will hand out.
\<close>

record services =
  users :: "(string \<times> bool) list"
  code_supply :: "string list"

definition example_iam :: "services iam_admin_client" where
  "example_iam =
     \<lparr>register_user = (\<lambda>u e f l p x.
        if u \<in> set (map fst (users x)) then (Inr False, x)
        else (Inr True, x\<lparr>users := users x @ [(u, False)]\<rparr>)),
      is_user_exist = (\<lambda>u x. (Inr (u \<in> set (map fst (users x))), x)),
      is_user_enabled = (\<lambda>u x. (Inr ((u, True) \<in> set (users x)), x)),
      enable_user = (\<lambda>u x.
        (Inr (), x\<lparr>users := map (\<lambda>(n, en). if n = u then (n, True) else (n, en)) (users x)\<rparr>)),
      get_user = (\<lambda>u x.
        (Inr \<lparr>emails = [u @ ''@x.com''], firstName = ''Alice'', lastName = ''A''\<rparr>, x))\<rparr>"

text \<open>
  The example renderer writes the template followed by the context it was given, so
  that a rendered text shows its context. The example \<^verbatim>\<open>login\<close> does what Django's
  does: given no user it takes the user of the request, the one the session holds, and
  raises when there is none.
\<close>

definition example_framework :: "services framework" where
  "example_framework =
     \<lparr>create_account_form = (\<lambda>post.
        case (post ''username'', post ''email'', post ''first_name'', post ''last_name'',
              post ''password'') of
          (Some u, Some e, Some f, Some l, Some p) \<Rightarrow>
            Inr \<lparr>cd_username = u, cd_email = e, cd_first_name = f, cd_last_name = l,
                 cd_password = p\<rparr>
        | _ \<Rightarrow> Inl [''This field is required.'']),
      resend_form = (\<lambda>post.
        case post ''username'' of
          Some u \<Rightarrow> Inr u
        | None \<Rightarrow> Inl [''This field is required.'']),
      render_template = (\<lambda>t ctx. Inr (t @ concat (map (\<lambda>(k, v). '' '' @ k @ ''='' @ v) ctx))),
      send = (\<lambda>msg x. (Inr (), x)),
      uuid4 = (\<lambda>x. case code_supply x of
                      [] \<Rightarrow> ('''', x)
                    | c # cs \<Rightarrow> (c, x\<lparr>code_supply := cs\<rparr>)),
      build_absolute_uri = (\<lambda>req r.
        case r of
          Some (Url_verify_email c) \<Rightarrow> ''https://portal/auth/verify-email/'' @ c
        | Some Url_callback \<Rightarrow> ''https://portal/auth/callback/''
        | _ \<Rightarrow> ''https://portal/''),
      quote = (\<lambda>s. s),
      split_domain_port = (\<lambda>h. (h, '''')),
      resolve_url = (\<lambda>u. Inr u),
      authenticate = (\<lambda>req sess x.
        if sess ''OAUTH2_STATE'' = GET req ''state'' \<and> GET req ''state'' \<noteq> None
        then (Inr (Some ''alice''), x)
        else (Inl (Exn Exception ''state mismatch'' None), x)),
      login = (\<lambda>req user sess.
        case user of
          None \<Rightarrow>
            (case sess ''_auth_user_id'' of
               None \<Rightarrow> Inl (Exn AttributeError ''no user'' None)
             | Some u \<Rightarrow> Inr sess)
        | Some u \<Rightarrow> Inr (sess(''_auth_user_id'' \<mapsto> u))),
      authorization_url = (\<lambda>client_id redirect_uri base x.
        ((base @ ''?client_id='' @ client_id @ ''&redirect_uri='' @ redirect_uri
            @ ''&state=s1'', ''s1''), x))\<rparr>"

definition example_settings :: settings where
  "example_settings =
     \<lparr>AUTHENTICATION_OPTIONS =
        \<lparr>password = Some ''Username/password'',
         external = Some [\<lparr>idp_alias = ''cilogon'', name = ''CILogon''\<rparr>,
                          \<lparr>idp_alias = ''github'', name = ''GitHub''\<rparr>]\<rparr>,
      KEYCLOAK_CLIENT_ID = ''portal'',
      KEYCLOAK_AUTHORIZE_URL = ''https://iam/auth'',
      LOGIN_REDIRECT_URL = ''/workspace/'',
      PORTAL_TITLE = ''Gateway'',
      SERVER_EMAIL = ''portal@x.com'',
      GATEWAY_ID = ''gw'',
      ADMINS = [(''Admin'', ''admin@x.com'')]\<rparr>"

definition example_templates :: "template_id \<rightharpoonup> email_template" where
  "example_templates =
     [VERIFY_EMAIL_TEMPLATE \<mapsto> \<lparr>subject = ''Verify'', body = ''Click''\<rparr>,
      NEW_USER_EMAIL_TEMPLATE \<mapsto> \<lparr>subject = ''New user'', body = ''Created''\<rparr>]"

text \<open>
  A state in which alice has registered and not yet followed her link (code c1),
  and bob has followed his (code c2) and is enabled.
\<close>

definition example_world :: "services world" where
  "example_world =
     \<lparr>ext = \<lparr>users = [(''alice'', False), (''bob'', True)], code_supply = [''c3'', ''c4'']\<rparr>,
      email_verifications =
        [\<lparr>username = ''alice'', verification_code = ''c1'', verified = False\<rparr>,
         \<lparr>username = ''bob'', verification_code = ''c2'', verified = True\<rparr>],
      email_templates = example_templates,
      session = Map.empty,
      messages = [],
      logged = [],
      iam_calls = [],
      outbox = []\<rparr>"

definition example_get :: request where
  "example_get =
     \<lparr>http_method = ''GET'', GET = [''idp_alias'' \<mapsto> ''github''], POST = Map.empty,
      get_host = Inr ''portal''\<rparr>"

definition register_carol :: request where
  "register_carol =
     \<lparr>http_method = ''POST'', GET = Map.empty,
      POST = [''username'' \<mapsto> ''carol'', ''email'' \<mapsto> ''c@x.com'',
              ''first_name'' \<mapsto> ''Carol'', ''last_name'' \<mapsto> ''C'', ''password'' \<mapsto> ''pw''],
      get_host = Inr ''portal''\<rparr>"

definition register_alice :: request where
  "register_alice =
     \<lparr>http_method = ''POST'', GET = Map.empty,
      POST = [''username'' \<mapsto> ''alice'', ''email'' \<mapsto> ''a@x.com'',
              ''first_name'' \<mapsto> ''Alice'', ''last_name'' \<mapsto> ''A'', ''password'' \<mapsto> ''pw''],
      get_host = Inr ''portal''\<rparr>"

definition resend_dave :: request where
  "resend_dave =
     \<lparr>http_method = ''POST'', GET = Map.empty, POST = [''username'' \<mapsto> ''dave''],
      get_host = Inr ''portal''\<rparr>"

text \<open>
  Two states the views can meet: the table of templates has lost the row of the
  new-user email, and the mail server refuses connections.
\<close>

definition world_without_new_user_template :: "services world" where
  "world_without_new_user_template =
     example_world\<lparr>email_templates :=
       (email_templates example_world)(NEW_USER_EMAIL_TEMPLATE := None)\<rparr>"

text \<open>
  A deployment with no administrator configured; an authentication backend that
  returns no user; and a state in which bob is logged in.
\<close>

definition no_admins :: settings where
  "no_admins = example_settings\<lparr>ADMINS := []\<rparr>"

definition failed_authentication :: "services framework" where
  "failed_authentication =
     example_framework\<lparr>authenticate := (\<lambda>req sess x. (Inr None, x))\<rparr>"

definition bob_logged_in :: "services world" where
  "bob_logged_in = example_world\<lparr>session := [''_auth_user_id'' \<mapsto> ''bob'']\<rparr>"

definition mail_down :: "services framework" where
  "mail_down =
     example_framework\<lparr>send :=
       (\<lambda>msg x. (Inl (Exn Exception ''Connection refused'' None), x))\<rparr>"

section \<open>Lemmas on the model\<close>

lemmas action_defs =
  seq_def return_def raise_def lift_def iam_def msg_send_def recipients_def messages_add_def
  logger_def
  EmailVerification_save_def EmailTemplate_get_def session_set_def

lemmas example_defs =
  example_iam_def example_framework_def example_settings_def example_templates_def
  example_world_def example_get_def register_carol_def register_alice_def resend_dave_def

lemma enumerate_row_in_table: "(i, r) \<in> set (enumerate n tbl) \<Longrightarrow> r \<in> set tbl"
  by (metis enumerate_eq_zip set_zip_rightD)

lemma rows_with_code_none:
  "code \<notin> set (map verification_code tbl) \<Longrightarrow> rows_with_code code tbl = []"
  by (auto simp: rows_with_code_def filter_empty_conv dest: enumerate_row_in_table)

text \<open>With unique codes, the lookup by the code of row \<open>pk\<close> finds that row alone.\<close>

lemma filter_enumerate_one:
  "distinct (map verification_code tbl) \<Longrightarrow> pk < length tbl \<Longrightarrow>
   filter (\<lambda>(i, r). verification_code r = verification_code (tbl ! pk)) (enumerate n tbl)
     = [(n + pk, tbl ! pk)]"
proof (induction tbl arbitrary: n pk)
  case Nil
  then show ?case by simp
next
  case (Cons a tbl)
  show ?case
  proof (cases pk)
    case 0
    have "verification_code r \<noteq> verification_code a"
      if "(i, r) \<in> set (enumerate (Suc n) tbl)" for i r
    proof -
      from that have "r \<in> set tbl" by (rule enumerate_row_in_table)
      then have "verification_code r \<in> set (map verification_code tbl)" by simp
      with Cons.prems(1) show ?thesis by auto
    qed
    then have "filter (\<lambda>(i, r). verification_code r = verification_code a)
                 (enumerate (Suc n) tbl) = []"
      by (auto simp: filter_empty_conv)
    with 0 show ?thesis by simp
  next
    case (Suc j)
    with Cons.prems have j: "j < length tbl" and d: "distinct (map verification_code tbl)"
      and ne: "verification_code a \<noteq> verification_code (tbl ! j)"
      by auto
    from Cons.IH [OF d j, of "Suc n"] Suc ne show ?thesis by simp
  qed
qed

lemma rows_with_code_one:
  "distinct (map verification_code tbl) \<Longrightarrow> pk < length tbl \<Longrightarrow>
   verification_code (tbl ! pk) = code \<Longrightarrow> rows_with_code code tbl = [(pk, tbl ! pk)]"
  using filter_enumerate_one [of tbl pk 0] by (auto simp: rows_with_code_def)

lemma EmailVerification_get_none:
  "code \<notin> set (map verification_code (email_verifications w)) \<Longrightarrow>
   EmailVerification_get code w =
     (Inl (Exn ObjectDoesNotExist ''EmailVerification matching query does not exist.'' None), w)"
  by (simp add: EmailVerification_get_def rows_with_code_none)

lemma EmailVerification_get_one:
  "distinct (map verification_code (email_verifications w)) \<Longrightarrow>
   pk < length (email_verifications w) \<Longrightarrow>
   verification_code (email_verifications w ! pk) = code \<Longrightarrow>
   EmailVerification_get code w = (Inr (pk, email_verifications w ! pk), w)"
  by (simp add: EmailVerification_get_def rows_with_code_one)

lemma filtered_options_acc:
  "filtered_options alias es acc = acc @ filter (\<lambda>e. idp_alias e = alias) es"
  by (induction es arbitrary: acc) auto

lemmas view_defs =
  create_account_def create_account_try_def create_and_send_email_verification_link_def
  EmailVerification_create_def EmailVerification_get_def rows_with_code_def
  verify_email_def verify_email_try_def first_email_def

text \<open>
  Once the record is found, the \<^verbatim>\<open>try\<close> block of \<^verbatim>\<open>verify_email\<close> leaves the
  table with that record verified, however the block ends, and its first IAM call asks
  whether the user is enabled.
\<close>

lemma verify_email_try_table:
  assumes "distinct (map verification_code (email_verifications w))"
    and "pk < length (email_verifications w)"
    and "verification_code (email_verifications w ! pk) = code"
    and "verify_email_try ic fw st req code w = (r, wa)"
  shows "email_verifications wa =
           (email_verifications w)[pk := (email_verifications w ! pk)\<lparr>verified := True\<rparr>]
         \<and> (\<exists>rest. iam_calls wa =
               iam_calls w @ Call_is_user_enabled (username (email_verifications w ! pk)) # rest)"
  using assms
  by (auto simp: verify_email_try_def action_defs EmailVerification_get_one first_email_def
      Let_def case_prod_beta
      split: prod.splits sum.splits if_splits option.splits list.splits)

lemma codes_after_verified:
  "pk < length tbl \<Longrightarrow>
   map verification_code (tbl[pk := (tbl ! pk)\<lparr>verified := True\<rparr>]) = map verification_code tbl"
  by (simp add: map_update list_update_same_conv)

lemma verify_email_after_try:
  assumes "verify_email_try ic fw st req code w = (r, wa)"
  shows "email_verifications (snd (verify_email ic fw st req code w)) = email_verifications wa
       \<and> iam_calls (snd (verify_email ic fw st req code w)) = iam_calls wa"
  using assms
  by (auto simp: verify_email_def action_defs split: sum.splits)

lemma link_keeps_iam_calls:
  "iam_calls (snd (create_and_send_email_verification_link fw st req u e f l w)) = iam_calls w"
  by (auto simp: create_and_send_email_verification_link_def EmailVerification_create_def
      action_defs Let_def case_prod_beta
      split: prod.splits sum.splits if_splits option.splits)

text \<open>
  The two branches of \<^verbatim>\<open>verify_email\<close> after the lookup: with the account enabled,
  the whole run; with the account not enabled, the IAM calls the run starts with.
\<close>

lemma verify_email_enabled_run:
  assumes "distinct (map verification_code (email_verifications w))"
    and "pk < length (email_verifications w)"
    and "verification_code (email_verifications w ! pk) = code"
    and "is_user_enabled ic (username (email_verifications w ! pk)) (ext w) = (Inr True, x')"
  shows "verify_email ic fw st req code w =
           (Inr (Redirect Url_login),
            w\<lparr>ext := x',
              email_verifications :=
                (email_verifications w)[pk := (email_verifications w ! pk)\<lparr>verified := True\<rparr>],
              logged := logged w @
                [(Debug, ''Email address verified for ''
                           @ username (email_verifications w ! pk)),
                 (Debug, ''User '' @ username (email_verifications w ! pk)
                           @ '' is already enabled'')],
              iam_calls := iam_calls w @
                [Call_is_user_enabled (username (email_verifications w ! pk))],
              messages := messages w @
                [(Success, ''Your account has already been successfully created. ''
                           @ ''Please log in now.'')]\<rparr>)"
  using assms
  by (simp add: verify_email_def verify_email_try_def action_defs EmailVerification_get_one
      Let_def)

lemma verify_email_not_enabled_calls:
  assumes "distinct (map verification_code (email_verifications w))"
    and "pk < length (email_verifications w)"
    and "verification_code (email_verifications w ! pk) = code"
    and "is_user_enabled ic (username (email_verifications w ! pk)) (ext w) = (Inr False, x')"
  shows "\<exists>rest. iam_calls (snd (verify_email ic fw st req code w)) =
           iam_calls w @ Call_is_user_enabled (username (email_verifications w ! pk))
             # Call_enable_user (username (email_verifications w ! pk)) # rest"
  using assms
  by (auto simp: verify_email_def verify_email_try_def action_defs EmailVerification_get_one
      first_email_def Let_def case_prod_beta
      split: prod.splits sum.splits if_splits option.splits list.splits)

text \<open>
  Modelled creation of a verification record: a record that was saved carries a code
  that no record of the table had.
\<close>

lemma EmailVerification_create_fresh:
  "EmailVerification_create fw uname w = (Inr r, w') \<Longrightarrow>
   verification_code r \<notin> set (map verification_code (email_verifications w))
   \<and> email_verifications w' = email_verifications w @ [r]
   \<and> username r = uname \<and> \<not> verified r"
  by (auto simp: EmailVerification_create_def Let_def split: prod.splits if_splits)

section \<open>The verification flow\<close>

text \<open>
  Claim C1. A verification code that matches no stored record makes the lookup fail
  with ObjectDoesNotExist (the spec's InvalidVerificationCode); the view logs it, adds
  the error message that asks for the username, and redirects to the resend-link page.
  Nothing but the log and the messages changes: no record is created or changed, no
  IAM call is made and no email is sent.
\<close>

theorem verify_email_unknown_code:
  assumes "code \<notin> set (map verification_code (email_verifications w))"
  shows "verify_email_try ic fw st req code w =
           (Inl (Exn ObjectDoesNotExist
                   ''EmailVerification matching query does not exist.'' None), w)
         \<and> verify_email ic fw st req code w =
           (Inr (Redirect Url_resend_email_link),
            w\<lparr>logged := logged w @
                 [(Log_exception, ''EmailVerification object doesn't exist for code '' @ code)],
              messages := messages w @
                 [(Error, ''Email verification failed. Please enter your username and we ''
                          @ ''will send you another email verification link.'')]\<rparr>)"
  using assms
  by (simp add: verify_email_def verify_email_try_def action_defs EmailVerification_get_none)

theorem verify_email_unknown_code_witness:
  "''zz'' \<notin> set (map verification_code (email_verifications example_world))
   \<and> fst (verify_email example_iam example_framework example_settings example_get ''zz''
           example_world) = Inr (Redirect Url_resend_email_link)
   \<and> email_verifications (snd (verify_email example_iam example_framework example_settings
           example_get ''zz'' example_world)) = email_verifications example_world"
  using verify_email_unknown_code [where code = "''zz''" and w = example_world
      and ic = example_iam and fw = example_framework and st = example_settings
      and req = example_get]
  by (simp add: example_world_def)

text \<open>
  Claim C2. When the record of the code is found and the IAM client reports the
  account as enabled, the view marks the record verified, makes that one IAM call and
  no other (so it does not enable the user), adds the message that the account has
  already been created, and redirects to the login page. The resulting state is given
  in full: beside the record, the state of the queried IAM service, two debug lines of
  the log, the recorded call and the message, nothing changes; no email is sent and
  the session is untouched.
\<close>

theorem verify_email_already_enabled:
  assumes "distinct (map verification_code (email_verifications w))"
    and "pk < length (email_verifications w)"
    and "verification_code (email_verifications w ! pk) = code"
    and "uname = username (email_verifications w ! pk)"
    and "is_user_enabled ic uname (ext w) = (Inr True, x')"
  shows "verify_email ic fw st req code w =
           (Inr (Redirect Url_login),
            w\<lparr>ext := x',
              email_verifications :=
                (email_verifications w)[pk := (email_verifications w ! pk)\<lparr>verified := True\<rparr>],
              logged := logged w @
                [(Debug, ''Email address verified for '' @ uname),
                 (Debug, ''User '' @ uname @ '' is already enabled'')],
              iam_calls := iam_calls w @ [Call_is_user_enabled uname],
              messages := messages w @
                [(Success, ''Your account has already been successfully created. ''
                           @ ''Please log in now.'')]\<rparr>)"
  using assms verify_email_enabled_run [of w pk code ic x' fw st req]
  by simp

theorem verify_email_already_enabled_witness:
  "distinct (map verification_code (email_verifications example_world))
   \<and> verification_code (email_verifications example_world ! Suc 0) = ''c2''
   \<and> is_user_enabled example_iam ''bob'' (ext example_world) = (Inr True, ext example_world)
   \<and> verify_email example_iam example_framework example_settings example_get ''c2''
         example_world =
       (Inr (Redirect Url_login),
        example_world
          \<lparr>logged := [(Debug, ''Email address verified for bob''),
                      (Debug, ''User bob is already enabled'')],
           iam_calls := [Call_is_user_enabled ''bob''],
           messages := [(Success, ''Your account has already been successfully created. ''
                                  @ ''Please log in now.'')]\<rparr>)"
proof -
  have h1: "distinct (map verification_code (email_verifications example_world))"
    by (simp add: example_world_def)
  have h2: "Suc 0 < length (email_verifications example_world)"
    by (simp add: example_world_def)
  have h3: "verification_code (email_verifications example_world ! Suc 0) = ''c2''"
    by (simp add: example_world_def)
  have h4: "''bob'' = username (email_verifications example_world ! Suc 0)"
    by (simp add: example_world_def)
  have h5: "is_user_enabled example_iam ''bob'' (ext example_world)
              = (Inr True, ext example_world)"
    by (simp add: example_world_def example_iam_def)
  have same: "example_world
      \<lparr>ext := ext example_world,
       email_verifications := (email_verifications example_world)
         [Suc 0 := (email_verifications example_world ! Suc 0)\<lparr>verified := True\<rparr>],
       logged := logged example_world @
         [(Debug, ''Email address verified for '' @ ''bob''),
          (Debug, ''User '' @ ''bob'' @ '' is already enabled'')],
       iam_calls := iam_calls example_world @ [Call_is_user_enabled ''bob''],
       messages := messages example_world @
         [(Success, ''Your account has already been successfully created. ''
                    @ ''Please log in now.'')]\<rparr>
    = example_world
      \<lparr>logged := [(Debug, ''Email address verified for bob''),
                  (Debug, ''User bob is already enabled'')],
       iam_calls := [Call_is_user_enabled ''bob''],
       messages := [(Success, ''Your account has already been successfully created. ''
                              @ ''Please log in now.'')]\<rparr>"
    by (simp add: example_world_def)
  from verify_email_already_enabled [OF h1 h2 h3 h4 h5, of example_framework example_settings
      example_get] same h1 h3 h5
  show ?thesis
    by simp
qed

text \<open>
  Claim C3, as amended. When the record of the code is found, the IAM client reports
  the account as not enabled, and no call of the enable and notify step raises (the
  case of a raise is claim C9), the view marks the record verified and saves it, calls
  is_user_enabled, enable_user and get_user once each in this order, renders the
  subject and the body of the new-user template with the context of the keys username,
  email, first_name, last_name, portal_title, gateway_id and http_host, adds the
  message that the account has been created, and redirects to the login page. It
  sends exactly one email, to the addresses of the configured administrators, when
  there is at least one non-empty address; with no recipient the mail backend is not
  called and no email is sent. The resulting state is given in full.
\<close>

theorem verify_email_enables_and_notifies:
  assumes "distinct (map verification_code (email_verifications w))"
    and "pk < length (email_verifications w)"
    and "verification_code (email_verifications w ! pk) = code"
    and "uname = username (email_verifications w ! pk)"
    and "is_user_enabled ic uname (ext w) = (Inr False, xa)"
    and "enable_user ic uname xa = (Inr (), xb)"
    and "get_user ic uname xb = (Inr profile, xc)"
    and "email_templates w NEW_USER_EMAIL_TEMPLATE = Some tmpl"
    and "emails profile = email_address # others"
    and "get_host req = Inr host"
    and "ctx = [(''username'', uname), (''email'', email_address),
                (''first_name'', firstName profile), (''last_name'', lastName profile),
                (''portal_title'', PORTAL_TITLE st), (''gateway_id'', GATEWAY_ID st),
                (''http_host'', fst (split_domain_port fw host))]"
    and "render_template fw (subject tmpl) ctx = Inr subj"
    and "render_template fw (body tmpl) ctx = Inr bdy"
    and "msg = \<lparr>msg_subject = subj, msg_body = bdy,
                from_email = PORTAL_TITLE st @ '' <'' @ SERVER_EMAIL st @ ''>'',
                to = map snd (ADMINS st), content_subtype = ''html''\<rparr>"
    and "recipients msg = [] \<or> send fw msg xc = (Inr (), xd)"
  shows "verify_email ic fw st req code w =
           (Inr (Redirect Url_login),
            w\<lparr>ext := (if recipients msg = [] then xc else xd),
              email_verifications :=
                (email_verifications w)[pk := (email_verifications w ! pk)\<lparr>verified := True\<rparr>],
              logged := logged w @
                [(Debug, ''Email address verified for '' @ uname),
                 (Debug, ''Enabling user '' @ uname)],
              iam_calls := iam_calls w @
                [Call_is_user_enabled uname, Call_enable_user uname, Call_get_user uname],
              outbox := (if recipients msg = [] then outbox w else outbox w @ [msg]),
              messages := messages w @
                [(Success, ''Your account has been successfully created. ''
                           @ ''Please log in now.'')]\<rparr>)"
proof (cases "recipients msg = []")
  case True
  with assms(1-14) show ?thesis
    by (simp add: verify_email_def verify_email_try_def seq_def return_def lift_def iam_def
        msg_send_def messages_add_def logger_def EmailVerification_save_def
        EmailTemplate_get_def EmailVerification_get_one first_email_def Let_def
        case_prod_beta)
next
  case False
  with assms have "send fw msg xc = (Inr (), xd)"
    by simp
  with False assms(1-14) show ?thesis
    by (simp add: verify_email_def verify_email_try_def seq_def return_def lift_def iam_def
        msg_send_def messages_add_def logger_def EmailVerification_save_def
        EmailTemplate_get_def EmailVerification_get_one first_email_def Let_def
        case_prod_beta)
qed

theorem verify_email_enables_and_notifies_witness:
  "distinct (map verification_code (email_verifications example_world))
   \<and> verification_code (email_verifications example_world ! 0) = ''c1''
   \<and> fst (is_user_enabled example_iam ''alice'' (ext example_world)) = Inr False
   \<and> (case verify_email example_iam example_framework example_settings example_get ''c1''
             example_world of
         (r, w') \<Rightarrow>
           r = Inr (Redirect Url_login)
         \<and> map verified (email_verifications w') = [True, True]
         \<and> iam_calls w' = [Call_is_user_enabled ''alice'', Call_enable_user ''alice'',
                            Call_get_user ''alice'']
         \<and> map to (outbox w') = [[''admin@x.com'']]
         \<and> users (ext w') = [(''alice'', True), (''bob'', True)])"
proof -
  let ?xa = "\<lparr>users = [(''alice'', True), (''bob'', True)], code_supply = [''c3'', ''c4'']\<rparr>"
  let ?profile = "\<lparr>emails = [''alice@x.com''], firstName = ''Alice'', lastName = ''A''\<rparr>"
  let ?tmpl = "\<lparr>subject = ''New user'', body = ''Created''\<rparr>"
  let ?ctx = "[(''username'', ''alice''), (''email'', ''alice@x.com''),
               (''first_name'', firstName ?profile), (''last_name'', lastName ?profile),
               (''portal_title'', PORTAL_TITLE example_settings),
               (''gateway_id'', GATEWAY_ID example_settings),
               (''http_host'', fst (split_domain_port example_framework ''portal''))]"
  let ?shown = "'' username=alice email=alice@x.com first_name=Alice last_name=A''
                @ '' portal_title=Gateway gateway_id=gw http_host=portal''"
  let ?msg = "\<lparr>msg_subject = ''New user'' @ ?shown, msg_body = ''Created'' @ ?shown,
               from_email = PORTAL_TITLE example_settings @ '' <''
                              @ SERVER_EMAIL example_settings @ ''>'',
               to = map snd (ADMINS example_settings), content_subtype = ''html''\<rparr>"
  have h1: "distinct (map verification_code (email_verifications example_world))"
    by (simp add: example_world_def)
  have h2: "0 < length (email_verifications example_world)"
    by (simp add: example_world_def)
  have h3: "verification_code (email_verifications example_world ! 0) = ''c1''"
    by (simp add: example_world_def)
  have h4: "''alice'' = username (email_verifications example_world ! 0)"
    by (simp add: example_world_def)
  have h5: "is_user_enabled example_iam ''alice'' (ext example_world)
              = (Inr False, ext example_world)"
    by (simp add: example_world_def example_iam_def)
  have h6: "enable_user example_iam ''alice'' (ext example_world) = (Inr (), ?xa)"
    by (simp add: example_world_def example_iam_def)
  have h7: "get_user example_iam ''alice'' ?xa = (Inr ?profile, ?xa)"
    by (simp add: example_iam_def)
  have h8: "email_templates example_world NEW_USER_EMAIL_TEMPLATE = Some ?tmpl"
    by (simp add: example_world_def example_templates_def)
  have h9: "emails ?profile = ''alice@x.com'' # []"
    by simp
  have h10: "get_host example_get = Inr ''portal''"
    by (simp add: example_get_def)
  have h11: "?ctx = ?ctx"
    by (rule refl)
  have h12: "render_template example_framework (subject ?tmpl) ?ctx
               = Inr (''New user'' @ ?shown)"
    by (simp add: example_framework_def example_settings_def)
  have h13: "render_template example_framework (body ?tmpl) ?ctx
               = Inr (''Created'' @ ?shown)"
    by (simp add: example_framework_def example_settings_def)
  have h14: "?msg = ?msg"
    by (rule refl)
  have h15: "recipients ?msg = [] \<or> send example_framework ?msg ?xa = (Inr (), ?xa)"
    by (simp add: example_framework_def)
  have rcp: "recipients ?msg \<noteq> []"
    by (simp add: recipients_def example_settings_def)
  note run = verify_email_enables_and_notifies
      [OF h1 h2 h3 h4 h5 h6 h7 h8 h9 h10 h11 h12 h13 h14 h15]
  have tbl: "map verified ((email_verifications example_world)
               [0 := (email_verifications example_world ! 0)\<lparr>verified := True\<rparr>])
             = [True, True]"
    by (simp add: example_world_def)
  have calls: "iam_calls example_world = []" and out: "outbox example_world = []"
    by (simp_all add: example_world_def)
  have admins: "map snd (ADMINS example_settings) = [''admin@x.com'']"
    by (simp add: example_settings_def)
  from tbl calls out admins rcp h1 h3 h5 show ?thesis
    by (simp add: run)
qed

text \<open>
  The claim as stated fails where no administrator is configured: alice's account is
  enabled and the success is reported, but no email is sent.
\<close>

theorem verify_email_no_admins_counterexample:
  "case verify_email example_iam example_framework no_admins example_get ''c1'' example_world of
     (r, w') \<Rightarrow>
       r = Inr (Redirect Url_login)
     \<and> iam_calls w' = [Call_is_user_enabled ''alice'', Call_enable_user ''alice'',
                        Call_get_user ''alice'']
     \<and> users (ext w') = [(''alice'', True), (''bob'', True)]
     \<and> messages w' =
         [(Success, ''Your account has been successfully created. ''
                    @ ''Please log in now.'')]
     \<and> outbox w' = []"
  by (simp add: view_defs action_defs example_defs no_admins_def Let_def)

text \<open>
  Claim C9, as amended. When the record of the code is found and the enable and notify
  step fails with an exception that is not an ObjectDoesNotExist, the failure is logged
  and surfaced as the generic message to try the link again later (with a redirect to
  the account creation page), and the record remains verified. A retry of the flow
  finds the record, verified, and starts the step anew by asking the IAM client whether
  the account is enabled. When the answer is yes, the retry takes the already-enabled
  branch: this is its only IAM call, it sends no email and redirects to the login
  page. When the answer is no, the retry calls enable_user next: it reaches the enable
  and notify branch only when the account is still not enabled.
\<close>

theorem verify_email_failure_retry_later:
  assumes "distinct (map verification_code (email_verifications w))"
    and "pk < length (email_verifications w)"
    and "verification_code (email_verifications w ! pk) = code"
    and "uname = username (email_verifications w ! pk)"
    and "verify_email_try ic fw st req code w = (Inl e, wa)"
    and "exc_class e \<noteq> ObjectDoesNotExist"
  shows "case verify_email ic fw st req code w of (r, w') \<Rightarrow>
           r = Inr (Redirect Url_create_account)
         \<and> logged w' = logged wa @
              [(Log_exception, ''Email verification processing failed!'')]
         \<and> messages w' = messages wa @
              [(Error, ''Email verification failed. Please try clicking the email ''
                       @ ''verification link again later.'')]
         \<and> email_verifications w' =
             (email_verifications w)[pk := (email_verifications w ! pk)\<lparr>verified := True\<rparr>]
         \<and> EmailVerification_get code w' =
             (Inr (pk, (email_verifications w ! pk)\<lparr>verified := True\<rparr>), w')
         \<and> (\<forall>ic' fw' st' req' x.
               (is_user_enabled ic' uname (ext w') = (Inr True, x) \<longrightarrow>
                  fst (verify_email ic' fw' st' req' code w') = Inr (Redirect Url_login)
                \<and> iam_calls (snd (verify_email ic' fw' st' req' code w')) =
                    iam_calls w' @ [Call_is_user_enabled uname]
                \<and> outbox (snd (verify_email ic' fw' st' req' code w')) = outbox w')
             \<and> (is_user_enabled ic' uname (ext w') = (Inr False, x) \<longrightarrow>
                  (\<exists>rest. iam_calls (snd (verify_email ic' fw' st' req' code w')) =
                     iam_calls w' @ Call_is_user_enabled uname # Call_enable_user uname
                       # rest)))"
proof -
  let ?tbl = "email_verifications w"
  let ?tbl' = "?tbl[pk := (?tbl ! pk)\<lparr>verified := True\<rparr>]"
  obtain w' where w': "w' = wa\<lparr>logged := logged wa @
                          [(Log_exception, ''Email verification processing failed!'')],
                        messages := messages wa @
                          [(Error, ''Email verification failed. Please try clicking the email ''
                                   @ ''verification link again later.'')]\<rparr>"
    by simp
  have run: "verify_email ic fw st req code w = (Inr (Redirect Url_create_account), w')"
    using assms(5,6) w' by (simp add: verify_email_def action_defs)
  have tbl: "email_verifications w' = ?tbl'"
    using verify_email_try_table [OF assms(1-3) assms(5)] w' by simp
  have d: "distinct (map verification_code (email_verifications w'))"
    using assms(1,2) tbl by (simp add: codes_after_verified)
  have l: "pk < length (email_verifications w')"
    using assms(2) tbl by simp
  have c: "verification_code (email_verifications w' ! pk) = code"
    using assms(2,3) tbl by simp
  have row: "email_verifications w' ! pk = (?tbl ! pk)\<lparr>verified := True\<rparr>"
    using assms(2) tbl by simp
  have u: "username (email_verifications w' ! pk) = uname"
    using row assms(4) by simp
  have get: "EmailVerification_get code w' = (Inr (pk, (?tbl ! pk)\<lparr>verified := True\<rparr>), w')"
    using EmailVerification_get_one [OF d l c] row by simp
  have enabled: "fst (verify_email ic' fw' st' req' code w') = Inr (Redirect Url_login)
       \<and> iam_calls (snd (verify_email ic' fw' st' req' code w')) =
           iam_calls w' @ [Call_is_user_enabled uname]
       \<and> outbox (snd (verify_email ic' fw' st' req' code w')) = outbox w'"
    if "is_user_enabled ic' uname (ext w') = (Inr True, x)"
    for ic' :: "'a iam_admin_client" and fw' :: "'a framework" and st' req' x
  proof -
    from that u have "is_user_enabled ic' (username (email_verifications w' ! pk)) (ext w')
                        = (Inr True, x)"
      by simp
    from verify_email_enabled_run [OF d l c this, of fw' st' req'] u show ?thesis
      by simp
  qed
  have not_enabled: "\<exists>rest. iam_calls (snd (verify_email ic' fw' st' req' code w')) =
         iam_calls w' @ Call_is_user_enabled uname # Call_enable_user uname # rest"
    if "is_user_enabled ic' uname (ext w') = (Inr False, x)"
    for ic' :: "'a iam_admin_client" and fw' :: "'a framework" and st' req' x
  proof -
    from that u have "is_user_enabled ic' (username (email_verifications w' ! pk)) (ext w')
                        = (Inr False, x)"
      by simp
    from verify_email_not_enabled_calls [OF d l c this, of fw' st' req'] u show ?thesis
      by simp
  qed
  from run w' tbl get enabled not_enabled show ?thesis
    by simp
qed

theorem verify_email_failure_retry_later_witness:
  "distinct (map verification_code (email_verifications example_world))
   \<and> verification_code (email_verifications example_world ! 0) = ''c1''
   \<and> fst (verify_email_try example_iam mail_down example_settings example_get ''c1''
           example_world) = Inl (Exn Exception ''Connection refused'' None)
   \<and> (case verify_email example_iam mail_down example_settings example_get ''c1''
             example_world of
         (r, w') \<Rightarrow>
           r = Inr (Redirect Url_create_account)
         \<and> map verified (email_verifications w') = [True, True])"
proof -
  let ?e = "Exn Exception ''Connection refused'' None"
  have h1: "distinct (map verification_code (email_verifications example_world))"
    by (simp add: example_world_def)
  have h2: "0 < length (email_verifications example_world)"
    by (simp add: example_world_def)
  have h3: "verification_code (email_verifications example_world ! 0) = ''c1''"
    by (simp add: example_world_def)
  have h4: "''alice'' = username (email_verifications example_world ! 0)"
    by (simp add: example_world_def)
  have f: "fst (verify_email_try example_iam mail_down example_settings example_get ''c1''
                  example_world) = Inl ?e"
    by (simp add: verify_email_try_def EmailVerification_get_def rows_with_code_def
        first_email_def action_defs example_defs mail_down_def Let_def)
  then obtain wa where h5: "verify_email_try example_iam mail_down example_settings
                              example_get ''c1'' example_world = (Inl ?e, wa)"
    by (cases "verify_email_try example_iam mail_down example_settings example_get ''c1''
                 example_world") simp
  have h6: "exc_class ?e \<noteq> ObjectDoesNotExist"
    by simp
  have tbl: "map verified ((email_verifications example_world)
               [0 := (email_verifications example_world ! 0)\<lparr>verified := True\<rparr>])
             = [True, True]"
    by (simp add: example_world_def)
  from verify_email_failure_retry_later [OF h1 h2 h3 h4 h5 h6] tbl h1 h3 f show ?thesis
    by (auto split: prod.splits)
qed

text \<open>
  The claim as stated fails. The mail server refuses the notification after alice's
  account has been enabled: the view reports to try again later and the record is
  verified. On the retry, with the mail server back, the view finds the account
  enabled and takes the already-enabled branch: it does not enable and notifies
  nobody, so that the administrators are never told of the new account.
\<close>

theorem verify_email_retry_counterexample:
  "case verify_email example_iam mail_down example_settings example_get ''c1'' example_world of
     (r1, w1) \<Rightarrow>
       r1 = Inr (Redirect Url_create_account)
     \<and> messages w1 =
         [(Error, ''Email verification failed. Please try clicking the email ''
                  @ ''verification link again later.'')]
     \<and> map verified (email_verifications w1) = [True, True]
     \<and> (case verify_email example_iam example_framework example_settings example_get ''c1'' w1 of
           (r2, w2) \<Rightarrow>
             r2 = Inr (Redirect Url_login)
           \<and> iam_calls w2 = iam_calls w1 @ [Call_is_user_enabled ''alice'']
           \<and> outbox w2 = []
           \<and> messages w2 = messages w1 @
                [(Success, ''Your account has already been successfully created. ''
                           @ ''Please log in now.'')])"
  by (simp add: verify_email_def verify_email_try_def EmailVerification_get_def
      rows_with_code_def first_email_def action_defs example_defs mail_down_def Let_def)

text \<open>
  The first handler of \<^verbatim>\<open>verify_email\<close> is written for the lookup of the code, as
  its comment and its log text say, but it takes every ObjectDoesNotExist of the
  block. When the row of the new-user template is missing, the failure occurs after
  the user has been enabled, is logged as a missing verification record, and sends
  the user to the resend-link page instead of reporting to try again later.
\<close>

lemma verify_email_missing_template:
  "case verify_email example_iam example_framework example_settings example_get ''c1''
          world_without_new_user_template of
     (r, w') \<Rightarrow>
       r = Inr (Redirect Url_resend_email_link)
     \<and> messages w' =
         [(Error, ''Email verification failed. Please enter your username and we ''
                  @ ''will send you another email verification link.'')]
     \<and> logged w' = [(Debug, ''Email address verified for alice''),
                     (Debug, ''Enabling user alice''),
                     (Log_exception, ''EmailVerification object doesn't exist for code c1'')]
     \<and> iam_calls w' = [Call_is_user_enabled ''alice'', Call_enable_user ''alice'',
                        Call_get_user ''alice'']
     \<and> users (ext w') = [(''alice'', True), (''bob'', True)]
     \<and> map verified (email_verifications w') = [True, True]
     \<and> outbox w' = []"
  by (simp add: view_defs action_defs example_defs world_without_new_user_template_def Let_def)

section \<open>Login through an identity provider\<close>

text \<open>
  Claim C4. For an alias that is not among the configured external providers (or when
  no list of providers is configured), redirect_login raises before anything else is
  done: it returns no redirect, and the whole state, the session with it, is as
  before, so that neither the OAuth2 state nor the redirect URI is stored.
\<close>

theorem redirect_login_rejects_unknown_alias:
  assumes "case external (AUTHENTICATION_OPTIONS st) of
             None \<Rightarrow> True
           | Some exts \<Rightarrow> alias \<notin> set (map idp_alias exts)"
  shows "redirect_login fw st req alias w =
           (Inl (case external (AUTHENTICATION_OPTIONS st) of
                   None \<Rightarrow> Exn KeyError ''external'' None
                 | Some exts \<Rightarrow> Exn Exception ''idp_alias is not valid'' None), w)"
  using assms
  by (auto simp: redirect_login_def validate_idp_alias_def action_defs split: option.splits)

theorem redirect_login_rejects_unknown_alias_witness:
  "(case external (AUTHENTICATION_OPTIONS example_settings) of
      None \<Rightarrow> True
    | Some exts \<Rightarrow> ''evil'' \<notin> set (map idp_alias exts))
   \<and> redirect_login example_framework example_settings example_get ''evil'' example_world =
       (Inl (Exn Exception ''idp_alias is not valid'' None), example_world)"
proof -
  have h: "case external (AUTHENTICATION_OPTIONS example_settings) of
             None \<Rightarrow> True
           | Some exts \<Rightarrow> ''evil'' \<notin> set (map idp_alias exts)"
    by (simp add: example_settings_def)
  have e: "external (AUTHENTICATION_OPTIONS example_settings) \<noteq> None"
    by (simp add: example_settings_def)
  from redirect_login_rejects_unknown_alias [OF h, of example_framework example_get example_world]
    h e show ?thesis
    by (auto split: option.splits)
qed

section \<open>The registration flow\<close>

text \<open>
  Claim C5, as amended. When the IAM client reports that the user has been created
  and none of the steps that follow raises (a raise is claim C7), the view creates and
  saves exactly one verification record for that username, not verified, with the
  generated code; it renders the subject and the body of the verify-email template
  with the context of the keys username, email, first_name, last_name, portal_title
  and url, where url is the absolute verification link of the code; and it sends
  exactly one email, to the new user's address. The code of the saved record is fresh:
  when the generated code is one the table already holds, the save is refused, the
  view does not report success, and no record is stored and no email sent. Codes that
  were unique before the request are unique after it.
\<close>

theorem create_account_sends_verification_link:
  assumes "http_method req = ''POST''"
    and "create_account_form fw (POST req) = Inr cd"
    and "register_user ic (cd_username cd) (cd_email cd) (cd_first_name cd) (cd_last_name cd)
           (cd_password cd) (ext w) = (Inr True, xa)"
    and "uuid4 fw xa = (code, xb)"
    and "email_templates w VERIFY_EMAIL_TEMPLATE = Some tmpl"
    and "ctx = [(''username'', cd_username cd), (''email'', cd_email cd),
                (''first_name'', cd_first_name cd), (''last_name'', cd_last_name cd),
                (''portal_title'', PORTAL_TITLE st),
                (''url'', build_absolute_uri fw req (Some (Url_verify_email code)))]"
    and "render_template fw (subject tmpl) ctx = Inr subj"
    and "render_template fw (body tmpl) ctx = Inr bdy"
    and "msg = \<lparr>msg_subject = subj, msg_body = bdy,
                from_email = PORTAL_TITLE st @ '' <'' @ SERVER_EMAIL st @ ''>'',
                to = [cd_first_name cd @ '' '' @ cd_last_name cd @ '' <'' @ cd_email cd @ ''>''],
                content_subtype = ''html''\<rparr>"
    and "send fw msg xb = (Inr (), xc)"
  shows "case create_account ic fw st req w of (r, w') \<Rightarrow>
           (if code \<in> set (map verification_code (email_verifications w))
            then r \<noteq> Inr (Redirect Url_create_account)
               \<and> email_verifications w' = email_verifications w
               \<and> outbox w' = outbox w
            else r = Inr (Redirect Url_create_account)
               \<and> email_verifications w' =
                   email_verifications w @
                     [\<lparr>username = cd_username cd, verification_code = code,
                       verified = False\<rparr>]
               \<and> outbox w' = outbox w @ [msg]
               \<and> ext w' = xc)
         \<and> iam_calls w' =
             iam_calls w @
               [Call_register_user (cd_username cd) (cd_email cd) (cd_first_name cd)
                  (cd_last_name cd) (cd_password cd)]
         \<and> (distinct (map verification_code (email_verifications w)) \<longrightarrow>
              distinct (map verification_code (email_verifications w')))"
proof (cases "code \<in> set (map verification_code (email_verifications w))")
  case True
  with assms(1-4) show ?thesis
    by (auto simp: create_account_def create_account_try_def
        create_and_send_email_verification_link_def EmailVerification_create_def
        seq_def return_def raise_def iam_def logger_def Let_def
        split: option.splits)
next
  case False
  with assms show ?thesis
    by (simp add: create_account_def create_account_try_def
        create_and_send_email_verification_link_def EmailVerification_create_def
        action_defs Let_def)
qed

theorem create_account_sends_verification_link_witness:
  "http_method register_carol = ''POST''
   \<and> fst (register_user example_iam ''carol'' ''c@x.com'' ''Carol'' ''C'' ''pw''
           (ext example_world)) = Inr True
   \<and> ''c3'' \<notin> set (map verification_code (email_verifications example_world))
   \<and> (case create_account example_iam example_framework example_settings register_carol
             example_world of
         (r, w') \<Rightarrow>
           r = Inr (Redirect Url_create_account)
         \<and> email_verifications w' =
             email_verifications example_world @
               [\<lparr>username = ''carol'', verification_code = ''c3'', verified = False\<rparr>]
         \<and> map to (outbox w') = [[''Carol C <c@x.com>'']])"
proof -
  let ?cd = "\<lparr>cd_username = ''carol'', cd_email = ''c@x.com'', cd_first_name = ''Carol'',
              cd_last_name = ''C'', cd_password = ''pw''\<rparr>"
  let ?xa = "\<lparr>users = [(''alice'', False), (''bob'', True), (''carol'', False)],
              code_supply = [''c3'', ''c4'']\<rparr>"
  let ?xb = "\<lparr>users = [(''alice'', False), (''bob'', True), (''carol'', False)],
              code_supply = [''c4'']\<rparr>"
  let ?tmpl = "\<lparr>subject = ''Verify'', body = ''Click''\<rparr>"
  let ?ctx = "[(''username'', cd_username ?cd), (''email'', cd_email ?cd),
               (''first_name'', cd_first_name ?cd), (''last_name'', cd_last_name ?cd),
               (''portal_title'', PORTAL_TITLE example_settings),
               (''url'', build_absolute_uri example_framework register_carol
                           (Some (Url_verify_email ''c3'')))]"
  let ?shown = "'' username=carol email=c@x.com first_name=Carol last_name=C''
                @ '' portal_title=Gateway url=https://portal/auth/verify-email/c3''"
  let ?msg = "\<lparr>msg_subject = ''Verify'' @ ?shown, msg_body = ''Click'' @ ?shown,
               from_email = PORTAL_TITLE example_settings @ '' <''
                              @ SERVER_EMAIL example_settings @ ''>'',
               to = [cd_first_name ?cd @ '' '' @ cd_last_name ?cd @ '' <''
                       @ cd_email ?cd @ ''>''],
               content_subtype = ''html''\<rparr>"
  have h1: "http_method register_carol = ''POST''"
    by (simp add: register_carol_def)
  have h2: "create_account_form example_framework (POST register_carol) = Inr ?cd"
    by (simp add: register_carol_def example_framework_def)
  have h3: "register_user example_iam (cd_username ?cd) (cd_email ?cd) (cd_first_name ?cd)
              (cd_last_name ?cd) (cd_password ?cd) (ext example_world) = (Inr True, ?xa)"
    by (simp add: example_iam_def example_world_def)
  have h4: "uuid4 example_framework ?xa = (''c3'', ?xb)"
    by (simp add: example_framework_def)
  have fresh: "''c3'' \<notin> set (map verification_code (email_verifications example_world))"
    by (simp add: example_world_def)
  have h6: "email_templates example_world VERIFY_EMAIL_TEMPLATE = Some ?tmpl"
    by (simp add: example_world_def example_templates_def)
  have h7: "?ctx = ?ctx"
    by (rule refl)
  have h8: "render_template example_framework (subject ?tmpl) ?ctx = Inr (''Verify'' @ ?shown)"
    by (simp add: example_framework_def example_settings_def)
  have h9: "render_template example_framework (body ?tmpl) ?ctx = Inr (''Click'' @ ?shown)"
    by (simp add: example_framework_def example_settings_def)
  have h10: "?msg = ?msg"
    by (rule refl)
  have h11: "send example_framework ?msg ?xb = (Inr (), ?xb)"
    by (simp add: example_framework_def)
  note run = create_account_sends_verification_link [OF h1 h2 h3 h4 h6 h7 h8 h9 h10 h11]
  have out: "outbox example_world = []"
    by (simp add: example_world_def)
  have reg: "fst (register_user example_iam ''carol'' ''c@x.com'' ''Carol'' ''C'' ''pw''
                    (ext example_world)) = Inr True"
    using h3 by simp
  from run out h1 fresh reg show ?thesis
    by (auto split: prod.splits)
qed

text \<open>
  The claim as stated names the key verification_url. The example renderer writes out
  the context it is given: the link is passed under the key url, and the context has
  no key verification_url.
\<close>

theorem create_account_context_counterexample:
  "map msg_subject (outbox (snd (create_account example_iam example_framework
       example_settings register_carol example_world))) =
     [''Verify username=carol email=c@x.com first_name=Carol last_name=C''
      @ '' portal_title=Gateway url=https://portal/auth/verify-email/c3'']
   \<and> map msg_subject (outbox (snd (create_account example_iam example_framework
       example_settings register_carol example_world))) \<noteq>
     [''Verify username=carol email=c@x.com first_name=Carol last_name=C''
      @ '' portal_title=Gateway verification_url=https://portal/auth/verify-email/c3'']"
  by (simp add: view_defs action_defs example_defs Let_def)

text \<open>
  Claim C6. When the IAM client reports that the registration failed, the form is
  rendered again with the single error "Failed to register user with IAM service".
  The state changes only by the IAM call: no verification record is created and no
  email is sent.
\<close>

theorem create_account_registration_failed:
  assumes "http_method req = ''POST''"
    and "create_account_form fw (POST req) = Inr cd"
    and "register_user ic (cd_username cd) (cd_email cd) (cd_first_name cd) (cd_last_name cd)
           (cd_password cd) (ext w) = (Inr False, xa)"
  shows "create_account ic fw st req w =
           (Inr (Render_create_account (AUTHENTICATION_OPTIONS st)
                   [''Failed to register user with IAM service'']),
            w\<lparr>ext := xa,
              iam_calls := iam_calls w @
                [Call_register_user (cd_username cd) (cd_email cd) (cd_first_name cd)
                   (cd_last_name cd) (cd_password cd)]\<rparr>)"
  using assms
  by (simp add: create_account_def create_account_try_def action_defs Let_def)

theorem create_account_registration_failed_witness:
  "http_method register_alice = ''POST''
   \<and> fst (create_account example_iam example_framework example_settings register_alice
           example_world) =
       Inr (Render_create_account (AUTHENTICATION_OPTIONS example_settings)
              [''Failed to register user with IAM service''])
   \<and> email_verifications (snd (create_account example_iam example_framework example_settings
         register_alice example_world)) = email_verifications example_world
   \<and> outbox (snd (create_account example_iam example_framework example_settings
         register_alice example_world)) = outbox example_world"
proof -
  let ?cd = "\<lparr>cd_username = ''alice'', cd_email = ''a@x.com'', cd_first_name = ''Alice'',
              cd_last_name = ''A'', cd_password = ''pw''\<rparr>"
  have h1: "http_method register_alice = ''POST''"
    by (simp add: register_alice_def)
  have h2: "create_account_form example_framework (POST register_alice) = Inr ?cd"
    by (simp add: register_alice_def example_framework_def)
  have h3: "register_user example_iam (cd_username ?cd) (cd_email ?cd) (cd_first_name ?cd)
              (cd_last_name ?cd) (cd_password ?cd) (ext example_world)
            = (Inr False, ext example_world)"
    by (simp add: example_iam_def example_world_def)
  from create_account_registration_failed [OF h1 h2 h3, of example_settings] h1
  show ?thesis
    by simp
qed

text \<open>
  Claim C7. An exception raised after the disabled IAM account has been created is to
  be logged and surfaced to the caller as a failure message, the account being left as
  it is. The handler of \<^verbatim>\<open>create_account\<close> logs the exception and then reads
  \<^verbatim>\<open>e.message\<close>, where \<^verbatim>\<open>resend_email_link\<close> takes \<^verbatim>\<open>str(e)\<close>. With the mail
  server down, the exception has no such attribute: an AttributeError leaves the view,
  no page is rendered and no message reaches the caller. The record of carol has been
  saved and her account exists, disabled; no IAM call follows the registration.
\<close>

theorem create_account_mail_down:
  "case create_account example_iam mail_down example_settings register_carol example_world of
     (r, w') \<Rightarrow>
       r = Inl (Exn AttributeError ''object has no attribute message'' None)
     \<and> messages w' = []
     \<and> logged w' = [(Debug, ''verification_uri=https://portal/auth/verify-email/c3''),
                     (Log_exception, ''Failed to create account for user'')]
     \<and> iam_calls w' = [Call_register_user ''carol'' ''c@x.com'' ''Carol'' ''C'' ''pw'']
     \<and> users (ext w') = [(''alice'', False), (''bob'', True), (''carol'', False)]
     \<and> map username (email_verifications w') = [''alice'', ''bob'', ''carol'']
     \<and> outbox w' = []"
  by (simp add: view_defs action_defs example_defs mail_down_def Let_def)

text \<open>
  No compensating rollback, however the view ends: the registration is the only IAM
  call of \<^verbatim>\<open>create_account\<close>.
\<close>

lemma create_account_no_rollback:
  assumes "http_method req = ''POST''"
    and "create_account_form fw (POST req) = Inr cd"
  shows "iam_calls (snd (create_account ic fw st req w)) =
           iam_calls w @
             [Call_register_user (cd_username cd) (cd_email cd) (cd_first_name cd)
                (cd_last_name cd) (cd_password cd)]"
  using assms
  by (auto simp: create_account_def create_account_try_def seq_def return_def raise_def
      iam_def messages_add_def logger_def Let_def case_prod_beta link_keeps_iam_calls
      split: prod.splits sum.splits if_splits option.splits flow.splits)

section \<open>The resend flow\<close>

text \<open>
  Claim C8. When the IAM client reports that the user does not exist, the view adds
  an error message and redirects to the resend-link page. The state changes only by
  that IAM query and the message: no verification record is created and no email is
  sent.
\<close>

theorem resend_email_link_unknown_user:
  assumes "http_method req = ''POST''"
    and "resend_form fw (POST req) = Inr uname"
    and "is_user_exist ic uname (ext w) = (Inr False, xa)"
  shows "resend_email_link ic fw st req w =
           (Inr (Redirect Url_resend_email_link),
            w\<lparr>ext := xa,
              iam_calls := iam_calls w @ [Call_is_user_exist uname],
              messages := messages w @
                [(Error, ''Unable to resend email verification link. Please ''
                         @ ''contact the website administrator for further ''
                         @ ''assistance.'')]\<rparr>)"
  using assms
  by (simp add: resend_email_link_def resend_email_link_try_def action_defs Let_def)

theorem resend_email_link_unknown_user_witness:
  "http_method resend_dave = ''POST''
   \<and> is_user_exist example_iam ''dave'' (ext example_world) = (Inr False, ext example_world)
   \<and> fst (resend_email_link example_iam example_framework example_settings resend_dave
           example_world) = Inr (Redirect Url_resend_email_link)
   \<and> email_verifications (snd (resend_email_link example_iam example_framework
         example_settings resend_dave example_world)) = email_verifications example_world
   \<and> outbox (snd (resend_email_link example_iam example_framework
         example_settings resend_dave example_world)) = outbox example_world"
proof -
  have h1: "http_method resend_dave = ''POST''"
    by (simp add: resend_dave_def)
  have h2: "resend_form example_framework (POST resend_dave) = Inr ''dave''"
    by (simp add: resend_dave_def example_framework_def)
  have h3: "is_user_exist example_iam ''dave'' (ext example_world)
            = (Inr False, ext example_world)"
    by (simp add: example_iam_def example_world_def)
  from resend_email_link_unknown_user [OF h1 h2 h3, of example_settings] h1 h3
  show ?thesis
    by simp
qed

section \<open>The error page of the OAuth2 callback\<close>

text \<open>
  Claim C10. A failed OAuth2 callback with a configured alias is to end on the error
  page of that alias. \<^verbatim>\<open>callback\<close> reaches the error page only when its block raises:
  it passes what \<^verbatim>\<open>authenticate\<close> returns to \<^verbatim>\<open>login\<close> without the test for no
  user that \<^verbatim>\<open>handle_login\<close> makes. When the authentication returns no user and the
  visitor is logged in, \<^verbatim>\<open>login\<close> takes the user of the request and does not raise:
  the view redirects to the landing page, shows no error, and leaves the state as it
  was.
\<close>

theorem callback_no_user_logged_in:
  "fst (do_authenticate failed_authentication example_get bob_logged_in) = Inr None
   \<and> GET example_get ''idp_alias'' = Some ''github''
   \<and> callback failed_authentication example_settings example_get bob_logged_in =
       (Inr (Redirect_url ''/workspace/''), bob_logged_in)"
  by (simp add: callback_def callback_try_def do_authenticate_def do_login_def
      failed_authentication_def bob_logged_in_def action_defs example_defs)

text \<open>
  When the block of \<^verbatim>\<open>callback\<close> does raise and the request names a configured
  alias, the view redirects to the error page of that alias, and the options this page
  renders are exactly the configured entries of that alias, in their order: whenever
  another provider is configured, this is not the full list.
\<close>

lemma callback_raise_error_page:
  assumes "external (AUTHENTICATION_OPTIONS st) = Some exts"
    and "alias \<in> set (map idp_alias exts)"
    and "GET req ''idp_alias'' = Some alias"
    and "callback_try fw st req w = (Inl err, wa)"
  shows "callback fw st req w =
           (Inr (Redirect (Url_callback_error (Some alias))),
            wa\<lparr>logged := logged wa @
                  [(Log_exception, ''An error occurred while processing OAuth2 callback: ''
                                     @ build_absolute_uri fw req None)],
               messages := messages wa @
                  [(Error, ''Failed to process OAuth2 callback: '' @ exc_str err)]\<rparr>)
       \<and> callback_error st alias =
           Inr (Render_callback_error alias (filter (\<lambda>e. idp_alias e = alias) exts))
       \<and> ((\<exists>e \<in> set exts. idp_alias e \<noteq> alias) \<longrightarrow>
            filter (\<lambda>e. idp_alias e = alias) exts \<noteq> exts)"
  using assms
  by (auto simp: callback_def callback_error_def validate_idp_alias_def action_defs
      filtered_options_acc filter_id_conv)

lemma callback_raise_error_page_example:
  "external (AUTHENTICATION_OPTIONS example_settings) =
     Some [\<lparr>idp_alias = ''cilogon'', name = ''CILogon''\<rparr>,
           \<lparr>idp_alias = ''github'', name = ''GitHub''\<rparr>]
   \<and> GET example_get ''idp_alias'' = Some ''github''
   \<and> fst (callback_try example_framework example_settings example_get example_world) =
       Inl (Exn Exception ''state mismatch'' None)
   \<and> fst (callback example_framework example_settings example_get example_world) =
       Inr (Redirect (Url_callback_error (Some ''github'')))
   \<and> callback_error example_settings ''github'' =
       Inr (Render_callback_error ''github'' [\<lparr>idp_alias = ''github'', name = ''GitHub''\<rparr>])"
proof -
  let ?exts = "[\<lparr>idp_alias = ''cilogon'', name = ''CILogon''\<rparr>,
                \<lparr>idp_alias = ''github'', name = ''GitHub''\<rparr>]"
  have h1: "external (AUTHENTICATION_OPTIONS example_settings) = Some ?exts"
    by (simp add: example_settings_def)
  have h2: "''github'' \<in> set (map idp_alias ?exts)"
    by simp
  have h3: "GET example_get ''idp_alias'' = Some ''github''"
    by (simp add: example_get_def)
  have h4: "callback_try example_framework example_settings example_get example_world =
              (Inl (Exn Exception ''state mismatch'' None), example_world)"
    by (simp add: callback_try_def do_authenticate_def seq_def example_framework_def
        example_get_def example_world_def)
  from callback_raise_error_page [OF h1 h2 h3 h4] h1 h3 h4
  show ?thesis
    by simp
qed

end
